theory Spec2Isabelle
  imports Complex_Main
begin

section \<open>Data model\<close>

text \<open>
  Values decoded from the JSON bodies of the Azure REST API. A number stands for its exact
  rational value, an object for the decoded dict (keys in insertion order, no key twice).
  A body that is not JSON is handed on as its text, which is \<open>JStr\<close> as well.
\<close>

datatype json =
    JNull
  | JBool bool
  | JNum rat
  | JStr string
  | JArr "json list"
  | JObj "(string \<times> json) list"

text \<open>
  The exceptions the plugin can meet. It catches \<open>CloudError\<close> alone, which carries the
  message extracted from the service's response.
\<close>

datatype fault =
    KeyError
  | IndexError
  | TypeError
  | AttributeError
  | PynagError
  | CloudError string

datatype status = OK | WARNING | CRITICAL | UNKNOWN

text \<open>One entry of the performance data, as \<open>add_perfdata\<close> receives it.\<close>

record perfdata =
  pd_label :: json
  pd_value :: json
  pd_uom :: "string option"
  pd_warn :: "string option"
  pd_crit :: "string option"

text \<open>
  How a run ends: \<open>nagios_exit\<close> with a status, a message and the performance data added
  so far; \<open>parser.error\<close> with a usage message; or an exception nobody handles.
\<close>

datatype outcome =
    Exit status string "perfdata list"
  | UsageError string
  | Fault fault

text \<open>
  The command-line options as \<open>super().activate()\<close> leaves them: \<open>resource\<close> and
  \<open>metric\<close> are required, the others are \<open>None\<close> when not given.
\<close>

record config =
  resource :: string
  metric :: string
  dimension :: "string option"
  dimension_value :: "string option"
  host :: "string option"
  timeout :: "string option"
  warning :: "string option"
  critical :: "string option"

text \<open>
  A request of \<open>_call_arm_rest_api\<close> and what the service answers: a response whose
  \<open>raise_for_status\<close> fails, with the message \<open>CloudError\<close> extracts from it, or a body.
\<close>

record request =
  base_url :: string
  path :: string
  params :: "(string \<times> string) list"
  req_timeout :: "rat option"

datatype reply = HttpError string | Body json

datatype call = Authenticate | Send request

text \<open>
  The collaborators outside the source file: the resource-id validator of msrestazure,
  Python's \<open>float\<close> on a string (\<open>None\<close> for \<open>ValueError\<close>), the outcome of the
  authentication (\<open>Some msg\<close> for a \<open>ClientException\<close>), the service, and Python's
  \<open>str\<close> on numbers, lists and dicts.
\<close>

record env =
  is_valid_resource_id :: "string \<Rightarrow> bool"
  py_float :: "string \<Rightarrow> rat option"
  auth_error :: "string option"
  send :: "request \<Rightarrow> reply"
  py_repr :: "json \<Rightarrow> string"

text \<open>The plugin object after the options are checked.\<close>

record plugin =
  opts :: config
  host_name :: string
  timeout_secs :: "rat option"
  metric_definitions :: json
  metric_properties :: json

text \<open>
  A computation of the plugin: it ends the run (\<open>Inl\<close>) or returns, and it has issued
  the listed calls, oldest first.
\<close>

type_synonym 'a io = "(outcome + 'a) \<times> call list"

definition ret :: "'a \<Rightarrow> 'a io" where
  "ret x = (Inr x, [])"

definition stop :: "outcome \<Rightarrow> 'a io" where
  "stop out = (Inl out, [])"

definition lift :: "fault + 'a \<Rightarrow> 'a io" where
  "lift r = (case r of Inl e \<Rightarrow> (Inl (Fault e), []) | Inr x \<Rightarrow> (Inr x, []))"

definition bind_io :: "'a io \<Rightarrow> ('a \<Rightarrow> 'b io) \<Rightarrow> 'b io" where
  "bind_io m f =
     (case m of
        (Inl out, cs) \<Rightarrow> (Inl out, cs)
      | (Inr x, cs) \<Rightarrow> (case f x of (r, cs') \<Rightarrow> (r, cs @ cs')))"

definition bind_f :: "fault + 'a \<Rightarrow> ('a \<Rightarrow> fault + 'b) \<Rightarrow> fault + 'b" where
  "bind_f r f = (case r of Inl e \<Rightarrow> Inl e | Inr x \<Rightarrow> f x)"

section \<open>Python's operations on decoded JSON\<close>

text \<open>\<open>str.lower\<close> on ASCII letters.\<close>

definition lower_char :: "char \<Rightarrow> char" where
  "lower_char c =
     (case map_of (zip ''ABCDEFGHIJKLMNOPQRSTUVWXYZ'' ''abcdefghijklmnopqrstuvwxyz'') c of
        None \<Rightarrow> c
      | Some l \<Rightarrow> l)"

definition lower :: "string \<Rightarrow> string" where
  "lower s = map lower_char s"

text \<open>\<open>x.lower()\<close>: only a string has the method.\<close>

fun py_lower :: "json \<Rightarrow> fault + string" where
  "py_lower (JStr s) = Inr (lower s)"
| "py_lower _ = Inl AttributeError"

text \<open>\<open>bool(x)\<close> on an option of the command line, and truth of a JSON value.\<close>

fun opt_truthy :: "string option \<Rightarrow> bool" where
  "opt_truthy None = False"
| "opt_truthy (Some s) = (s \<noteq> [])"

fun truthy :: "json \<Rightarrow> bool" where
  "truthy JNull = False"
| "truthy (JBool b) = b"
| "truthy (JNum r) = (r \<noteq> 0)"
| "truthy (JStr s) = (s \<noteq> [])"
| "truthy (JArr xs) = (xs \<noteq> [])"
| "truthy (JObj kvs) = (kvs \<noteq> [])"

text \<open>\<open>x[key]\<close> with a string key.\<close>

fun getitem :: "json \<Rightarrow> string \<Rightarrow> fault + json" where
  "getitem (JObj kvs) k = (case map_of kvs k of None \<Rightarrow> Inl KeyError | Some v \<Rightarrow> Inr v)"
| "getitem _ k = Inl TypeError"

text \<open>\<open>x[0]\<close>. The keys of a decoded object are strings, so \<open>0\<close> is never one.\<close>

fun getitem0 :: "json \<Rightarrow> fault + json" where
  "getitem0 (JArr []) = Inl IndexError"
| "getitem0 (JArr (x # xs)) = Inr x"
| "getitem0 (JStr []) = Inl IndexError"
| "getitem0 (JStr (c # cs)) = Inr (JStr [c])"
| "getitem0 (JObj kvs) = Inl KeyError"
| "getitem0 _ = Inl TypeError"

text \<open>\<open>x.get(key, default)\<close>: a method of dicts only.\<close>

fun get_default :: "json \<Rightarrow> string \<Rightarrow> json \<Rightarrow> fault + json" where
  "get_default (JObj kvs) k d = (case map_of kvs k of None \<Rightarrow> Inr d | Some v \<Rightarrow> Inr v)"
| "get_default _ k d = Inl AttributeError"

text \<open>The items a \<open>for\<close> loop visits, and those of \<open>reversed(x)\<close>.\<close>

fun iter :: "json \<Rightarrow> fault + json list" where
  "iter (JArr xs) = Inr xs"
| "iter (JStr s) = Inr (map (\<lambda>c. JStr [c]) s)"
| "iter (JObj kvs) = Inr (map (\<lambda>kv. JStr (fst kv)) kvs)"
| "iter _ = Inl TypeError"

fun reversed :: "json \<Rightarrow> fault + json list" where
  "reversed (JArr xs) = Inr (rev xs)"
| "reversed (JStr s) = Inr (rev (map (\<lambda>c. JStr [c]) s))"
| "reversed (JObj kvs) = Inr (rev (map (\<lambda>kv. JStr (fst kv)) kvs))"
| "reversed _ = Inl TypeError"

text \<open>\<open>key in x\<close> for a string key: a key of a dict, an item of a list, a part of a string.\<close>

fun is_prefix :: "string \<Rightarrow> string \<Rightarrow> bool" where
  "is_prefix [] ys = True"
| "is_prefix (x # xs) [] = False"
| "is_prefix (x # xs) (y # ys) = (x = y \<and> is_prefix xs ys)"

fun is_substring :: "string \<Rightarrow> string \<Rightarrow> bool" where
  "is_substring xs [] = (xs = [])"
| "is_substring xs (y # ys) = (is_prefix xs (y # ys) \<or> is_substring xs ys)"

fun contains :: "string \<Rightarrow> json \<Rightarrow> fault + bool" where
  "contains k (JObj kvs) = Inr (map_of kvs k \<noteq> None)"
| "contains k (JArr xs) = Inr (JStr k \<in> set xs)"
| "contains k (JStr s) = Inr (is_substring k s)"
| "contains k _ = Inl TypeError"

text \<open>A list comprehension: the first item that raises ends it.\<close>

fun comprehension :: "('a \<Rightarrow> fault + 'b) \<Rightarrow> 'a list \<Rightarrow> fault + 'b list" where
  "comprehension f [] = Inr []"
| "comprehension f (x # xs) =
     (case f x of
        Inl e \<Rightarrow> Inl e
      | Inr y \<Rightarrow> (case comprehension f xs of Inl e \<Rightarrow> Inl e | Inr ys \<Rightarrow> Inr (y # ys)))"

text \<open>\<open>", ".join(xs)\<close>: every item must be a string.\<close>

fun join_strs :: "string list \<Rightarrow> string" where
  "join_strs [] = []"
| "join_strs [s] = s"
| "join_strs (s # t # ts) = s @ '', '' @ join_strs (t # ts)"

fun as_str :: "json \<Rightarrow> fault + string" where
  "as_str (JStr s) = Inr s"
| "as_str _ = Inl TypeError"

definition join :: "json list \<Rightarrow> fault + string" where
  "join xs = (case comprehension as_str xs of Inl e \<Rightarrow> Inl e | Inr ss \<Rightarrow> Inr (join_strs ss))"

text \<open>A value inside an f-string; \<open>None\<close> of an option prints as \<open>None\<close>.\<close>

fun fmt :: "env \<Rightarrow> json \<Rightarrow> string" where
  "fmt e (JStr s) = s"
| "fmt e JNull = ''None''"
| "fmt e (JBool b) = (if b then ''True'' else ''False'')"
| "fmt e v = py_repr e v"

fun fmt_opt :: "string option \<Rightarrow> string" where
  "fmt_opt None = ''None''"
| "fmt_opt (Some s) = s"

section \<open>Threshold ranges\<close>

text \<open>
  Modelled from the spec: \<open>Plugins.check_threshold\<close> of pynag, which the plugin calls and
  whose code is not part of the repository. A threshold spec is a bare number \<open>n\<close> (alert
  below 0 or above \<open>n\<close>) or a range \<open>lo:hi\<close> (alert outside \<open>[lo, hi]\<close>; \<open>hi\<close> left out is
  plus infinity, \<open>~\<close> for \<open>lo\<close> is minus infinity), with \<open>@\<close> in front to invert. Numbers are
  decimal, with an optional sign and an optional fraction. A \<open>lo\<close> left out is 0, as for a
  bare number, and a spec that is not given, or empty, never fires.
\<close>

record threshold_range =
  range_inverted :: bool
  range_lo :: "rat option"
  range_hi :: "rat option"

definition digit_of :: "char \<Rightarrow> nat option" where
  "digit_of c = map_of (zip ''0123456789'' [0, 1, 2, 3, 4, 5, 6, 7, 8, 9]) c"

fun digits_val :: "nat \<Rightarrow> string \<Rightarrow> nat option" where
  "digits_val acc [] = Some acc"
| "digits_val acc (c # cs) =
     (case digit_of c of None \<Rightarrow> None | Some d \<Rightarrow> digits_val (10 * acc + d) cs)"

definition is_not :: "char \<Rightarrow> char \<Rightarrow> bool" where
  "is_not sep c = (c \<noteq> sep)"

definition parse_unsigned :: "string \<Rightarrow> rat option" where
  "parse_unsigned s =
     (let ip = takeWhile (is_not CHR ''.'') s;
          fp = drop 1 (dropWhile (is_not CHR ''.'') s)
      in if ip = [] \<and> fp = [] then None
         else (case digits_val 0 ip of
                 None \<Rightarrow> None
               | Some i \<Rightarrow>
                   (case digits_val 0 fp of
                      None \<Rightarrow> None
                    | Some f \<Rightarrow> Some (of_nat i + of_nat f / 10 ^ length fp))))"

fun parse_number :: "string \<Rightarrow> rat option" where
  "parse_number [] = None"
| "parse_number (c # cs) =
     (if c = CHR ''-'' then map_option uminus (parse_unsigned cs)
      else if c = CHR ''+'' then parse_unsigned cs
      else parse_unsigned (c # cs))"

definition parse_lo :: "string \<Rightarrow> rat option option" where
  "parse_lo s =
     (if s = ''~'' then Some None
      else if s = [] then Some (Some 0)
      else map_option Some (parse_number s))"

definition parse_hi :: "string \<Rightarrow> rat option option" where
  "parse_hi s = (if s = [] then Some None else map_option Some (parse_number s))"

definition parse_bounds :: "bool \<Rightarrow> string \<Rightarrow> threshold_range option" where
  "parse_bounds neg s =
     (let lo_s = (if CHR '':'' \<in> set s then takeWhile (is_not CHR '':'') s else []);
          hi_s = (if CHR '':'' \<in> set s then drop 1 (dropWhile (is_not CHR '':'') s) else s)
      in case parse_lo lo_s of
           None \<Rightarrow> None
         | Some l \<Rightarrow>
             (case parse_hi hi_s of
                None \<Rightarrow> None
              | Some h \<Rightarrow> Some \<lparr>range_inverted = neg, range_lo = l, range_hi = h\<rparr>))"

fun parse_range :: "string \<Rightarrow> threshold_range option" where
  "parse_range [] = parse_bounds False []"
| "parse_range (c # cs) =
     (if c = CHR ''@'' then parse_bounds True cs else parse_bounds False (c # cs))"

definition in_range :: "threshold_range \<Rightarrow> rat \<Rightarrow> bool" where
  "in_range r v =
     ((case range_lo r of None \<Rightarrow> True | Some l \<Rightarrow> l \<le> v) \<and>
      (case range_hi r of None \<Rightarrow> True | Some h \<Rightarrow> v \<le> h))"

definition alerts :: "threshold_range \<Rightarrow> rat \<Rightarrow> bool" where
  "alerts r v = (if range_inverted r then in_range r v else \<not> in_range r v)"

fun number_of :: "json \<Rightarrow> fault + rat" where
  "number_of (JNum r) = Inr r"
| "number_of _ = Inl TypeError"

text \<open>
  Modelled from the spec: whether one threshold spec of \<open>Plugins.check_threshold\<close> (pynag,
  not in the repository) alerts on a value. A spec that does not parse is an error.
\<close>

definition fires :: "string option \<Rightarrow> json \<Rightarrow> fault + bool" where
  "fires spec v =
     (case spec of
        None \<Rightarrow> Inr False
      | Some s \<Rightarrow>
          if s = [] then Inr False
          else (case parse_range s of
                  None \<Rightarrow> Inl PynagError
                | Some r \<Rightarrow> bind_f (number_of v) (\<lambda>x. Inr (alerts r x))))"

text \<open>
  Modelled from the spec: \<open>Plugins.check_threshold\<close> of pynag (not in the repository).
  Critical is checked before warning.
\<close>

definition check_threshold :: "json \<Rightarrow> string option \<Rightarrow> string option \<Rightarrow> fault + status" where
  "check_threshold v warn crit =
     bind_f (fires crit v) (\<lambda>c.
       if c then Inr CRITICAL
       else bind_f (fires warn v) (\<lambda>w. if w then Inr WARNING else Inr OK))"

section \<open>The plugin\<close>

definition DEFAULT_AZURE_SERVICE_HOST :: string where
  "DEFAULT_AZURE_SERVICE_HOST = ''management.azure.com''"

definition AZURE_METRICS_API :: string where
  "AZURE_METRICS_API = ''2017-05-01-preview''"

definition AZURE_METRICS_UNIT_SYMBOLS :: "(string \<times> string) list" where
  "AZURE_METRICS_UNIT_SYMBOLS = [(''Percent'', ''%''), (''Bytes'', ''B''), (''Seconds'', ''s'')]"

text \<open>
  \<open>_call_arm_rest_api\<close>: the query and the API version make the parameters of one request;
  a failing status raises \<open>CloudError\<close>, anything else returns the decoded body.
\<close>

definition arm_request :: "plugin \<Rightarrow> string \<Rightarrow> string \<Rightarrow> (string \<times> string) list \<Rightarrow> request" where
  "arm_request p pth api_version query =
     \<lparr>base_url = ''https://'' @ host_name p,
      path = pth,
      params = query @ [(''api-version'', api_version)],
      req_timeout = timeout_secs p\<rparr>"

definition call_arm_rest_api :: "env \<Rightarrow> request \<Rightarrow> (fault + json) \<times> call list" where
  "call_arm_rest_api e r =
     (case send e r of HttpError msg \<Rightarrow> Inl (CloudError msg) | Body b \<Rightarrow> Inr b, [Send r])"

text \<open>\<open>except CloudError as ex: self.nagios_exit(Plugins.UNKNOWN, ex.message)\<close>\<close>

definition except_cloud_error :: "(fault + 'a) \<times> call list \<Rightarrow> 'a io" where
  "except_cloud_error m =
     (case m of
        (Inl (CloudError msg), cs) \<Rightarrow> (Inl (Exit UNKNOWN msg []), cs)
      | (Inl f, cs) \<Rightarrow> (Inl (Fault f), cs)
      | (Inr x, cs) \<Rightarrow> (Inr x, cs))"

subsection \<open>\<open>activate\<close>\<close>

text \<open>The checks of the options, before the first call (lines 100 to 117).\<close>

definition check_options :: "config \<Rightarrow> env \<Rightarrow> plugin io" where
  "check_options cfg e =
     (if \<not> is_valid_resource_id e (resource cfg) then stop (UsageError ''invalid resource ID'')
      else if opt_truthy (dimension cfg) \<noteq> opt_truthy (dimension_value cfg)
      then stop (UsageError ''--dimension and --dimension-value must be used together'')
      else
        (let h = (case host cfg of None \<Rightarrow> DEFAULT_AZURE_SERVICE_HOST | Some h \<Rightarrow> h);
             p = \<lparr>opts = cfg, host_name = h, timeout_secs = None,
                  metric_definitions = JNull, metric_properties = JNull\<rparr>
         in case timeout cfg of
              None \<Rightarrow> ret p
            | Some t \<Rightarrow>
                (case py_float e t of
                   None \<Rightarrow> stop (UsageError ''Invalid timeout'')
                 | Some f \<Rightarrow>
                     if f < 0 then stop (UsageError ''Invalid timeout'')
                     else ret (p\<lparr>timeout_secs := Some f\<rparr>))))"

text \<open>The authentication (lines 119 to 129).\<close>

definition authenticate :: "plugin \<Rightarrow> env \<Rightarrow> plugin io" where
  "authenticate p e =
     (case auth_error e of
        Some msg \<Rightarrow> (Inl (Exit UNKNOWN msg []), [Authenticate])
      | None \<Rightarrow> (Inr p, [Authenticate]))"

definition definitions_request :: "plugin \<Rightarrow> request" where
  "definitions_request p =
     arm_request p (resource (opts p) @ ''/providers/Microsoft.Insights/metricDefinitions'')
       AZURE_METRICS_API []"

definition get_metric_definitions :: "plugin \<Rightarrow> env \<Rightarrow> (fault + json) \<times> call list" where
  "get_metric_definitions p e =
     (case call_arm_rest_api e (definitions_request p) of
        (r, cs) \<Rightarrow> (bind_f r (\<lambda>metrics. getitem metrics ''value''), cs))"

text \<open>The metric definitions (lines 131 to 134).\<close>

definition load_definitions :: "plugin \<Rightarrow> env \<Rightarrow> plugin io" where
  "load_definitions p e =
     bind_io (except_cloud_error (get_metric_definitions p e))
       (\<lambda>defs. ret (p\<lparr>metric_definitions := defs\<rparr>))"

definition metric_id :: "json \<Rightarrow> fault + json" where
  "metric_id m = bind_f (getitem m ''name'') (\<lambda>n. getitem n ''value'')"

text \<open>The loop of \<open>_get_metric_properties\<close>; \<open>None\<close> when no definition has the name.\<close>

fun find_metric :: "string \<Rightarrow> json list \<Rightarrow> fault + json" where
  "find_metric name [] = Inr JNull"
| "find_metric name (m # ms) =
     (case metric_id m of
        Inl f \<Rightarrow> Inl f
      | Inr v \<Rightarrow> if v = JStr name then Inr m else find_metric name ms)"

definition get_metric_properties :: "plugin \<Rightarrow> fault + json" where
  "get_metric_properties p =
     bind_f (iter (metric_definitions p)) (find_metric (metric (opts p)))"

text \<open>The requested metric (lines 136 to 142).\<close>

definition resolve_metric :: "plugin \<Rightarrow> plugin io" where
  "resolve_metric p =
     bind_io (lift (bind_f (iter (metric_definitions p)) (comprehension metric_id)))
       (\<lambda>metric_ids.
          if JStr (metric (opts p)) \<notin> set metric_ids
          then bind_io (lift (join metric_ids))
                 (\<lambda>names. stop (UsageError
                    (''Unknown metric '' @ metric (opts p) @ '' for specified resource. '' @
                     ''Supported metrics are: '' @ names)))
          else bind_io (lift (get_metric_properties p))
                 (\<lambda>m. ret (p\<lparr>metric_properties := m\<rparr>)))"

definition is_dimension_required :: "plugin \<Rightarrow> fault + json" where
  "is_dimension_required p = getitem (metric_properties p) ''isDimensionRequired''"

definition dimension_ids :: "plugin \<Rightarrow> fault + json list" where
  "dimension_ids p =
     bind_f (get_default (metric_properties p) ''dimensions'' (JArr []))
       (\<lambda>ds. bind_f (iter ds) (comprehension (\<lambda>d. getitem d ''value'')))"

text \<open>The requested dimension (lines 144 to 154).\<close>

definition resolve_dimension :: "plugin \<Rightarrow> plugin io" where
  "resolve_dimension p =
     bind_io (lift (dimension_ids p))
       (\<lambda>ids. bind_io (lift (is_dimension_required p))
          (\<lambda>required.
             if truthy required \<and> dimension (opts p) = None
             then bind_io (lift (join ids))
                    (\<lambda>names. stop (UsageError
                       (''Dimension required for metric '' @ metric (opts p) @ ''. '' @
                        ''Supported dimensions are: '' @ names)))
             else if dimension (opts p) \<noteq> None \<and> JStr (fmt_opt (dimension (opts p))) \<notin> set ids
             then bind_io (lift (join ids))
                    (\<lambda>names. stop (UsageError
                       (''Unknown dimension '' @ fmt_opt (dimension (opts p)) @
                        '' for metric '' @ metric (opts p) @ ''. '' @
                        ''Supported dimensions are: '' @ names)))
             else ret p))"

text \<open>
  \<open>activate\<close> runs these in the order of the source: up to the catalog (line 134), up to
  the definition of the requested metric (line 142), and to the end.
\<close>

definition connect :: "config \<Rightarrow> env \<Rightarrow> plugin io" where
  "connect cfg e =
     bind_io (check_options cfg e) (\<lambda>p.
     bind_io (authenticate p e) (\<lambda>p. load_definitions p e))"

definition lookup_metric :: "config \<Rightarrow> env \<Rightarrow> plugin io" where
  "lookup_metric cfg e = bind_io (connect cfg e) resolve_metric"

definition activate :: "config \<Rightarrow> env \<Rightarrow> plugin io" where
  "activate cfg e = bind_io (lookup_metric cfg e) resolve_dimension"

subsection \<open>\<open>_get_metric_value\<close>\<close>

definition apostrophe :: string where
  "apostrophe = [CHR 0x27]"

text \<open>The query of the request (lines 186 to 188) and its path (line 190).\<close>

definition metric_query :: "config \<Rightarrow> (string \<times> string) list" where
  "metric_query cfg =
     (''metric'', metric cfg) #
     (case dimension cfg of
        None \<Rightarrow> []
      | Some d \<Rightarrow>
          [(''$filter'', d @ '' eq '' @ apostrophe @ fmt_opt (dimension_value cfg) @ apostrophe)])"

definition metric_path :: "config \<Rightarrow> string" where
  "metric_path cfg = resource cfg @ ''/providers/Microsoft.Insights/metrics/'' @ metric cfg"

text \<open>The loop over the points, newest first (lines 209 to 211); \<open>None\<close> when it ends.\<close>

fun latest_value :: "string \<Rightarrow> json list \<Rightarrow> fault + json" where
  "latest_value agg [] = Inr JNull"
| "latest_value agg (v # vs) =
     (case contains agg v of
        Inl f \<Rightarrow> Inl f
      | Inr found \<Rightarrow> if found then getitem v agg else latest_value agg vs)"

definition metrics_request :: "plugin \<Rightarrow> request" where
  "metrics_request p =
     arm_request p (metric_path (opts p)) AZURE_METRICS_API (metric_query (opts p))"

text \<open>\<open>metric_values['value'][0]['timeseries']\<close> (line 200).\<close>

definition timeseries_of :: "json \<Rightarrow> fault + json" where
  "timeseries_of body =
     bind_f (getitem body ''value'')
       (\<lambda>v. bind_f (getitem0 v) (\<lambda>first. getitem first ''timeseries''))"

definition fetch_timeseries :: "plugin \<Rightarrow> env \<Rightarrow> (fault + json) \<times> call list" where
  "fetch_timeseries p e =
     (case call_arm_rest_api e (metrics_request p) of
        (r, cs) \<Rightarrow> (bind_f r timeseries_of, cs))"

definition select_value :: "plugin \<Rightarrow> json \<Rightarrow> fault + json" where
  "select_value p metric_values =
     (if \<not> truthy metric_values then Inr JNull
      else bind_f (getitem (metric_properties p) ''primaryAggregationType'')
             (\<lambda>a. bind_f (py_lower a)
                (\<lambda>aggregation_type. bind_f (getitem0 metric_values)
                   (\<lambda>series. bind_f (getitem series ''data'')
                      (\<lambda>d. bind_f (reversed d) (latest_value aggregation_type))))))"

definition get_metric_value :: "plugin \<Rightarrow> env \<Rightarrow> json io" where
  "get_metric_value p e =
     bind_io (except_cloud_error (fetch_timeseries p e))
       (\<lambda>metric_values. lift (select_value p metric_values))"

subsection \<open>\<open>check_metric\<close>\<close>

definition no_value_message :: "config \<Rightarrow> string" where
  "no_value_message cfg =
     ''No value available for metric '' @ metric cfg @
     (case dimension cfg of None \<Rightarrow> [] | Some d \<Rightarrow> '' and dimension '' @ d)"

text \<open>\<open>_AZURE_METRICS_UNIT_SYMBOLS.get(unit)\<close>: a list or a dict cannot be a key.\<close>

fun unit_symbol :: "json \<Rightarrow> fault + string option" where
  "unit_symbol (JStr u) = Inr (map_of AZURE_METRICS_UNIT_SYMBOLS u)"
| "unit_symbol (JArr xs) = Inl TypeError"
| "unit_symbol (JObj kvs) = Inl TypeError"
| "unit_symbol _ = Inr None"

text \<open>What \<open>check_metric\<close> does with the fetched value (lines 219 to 240).\<close>

definition report :: "plugin \<Rightarrow> env \<Rightarrow> json \<Rightarrow> fault + outcome" where
  "report p e v =
     (let m = metric_properties p; cfg = opts p
      in if v = JNull then Inr (Exit UNKNOWN (no_value_message cfg) [])
         else bind_f (check_threshold v (warning cfg) (critical cfg))
                (\<lambda>st. bind_f (bind_f (getitem m ''unit'') unit_symbol)
                   (\<lambda>unit. bind_f (metric_id m)
                      (\<lambda>label. bind_f (bind_f (getitem m ''name'') (\<lambda>n. getitem n ''localizedValue''))
                         (\<lambda>localized. bind_f (bind_f (getitem m ''unit'') py_lower)
                            (\<lambda>u. Inr (Exit st (fmt e localized @ '' '' @ fmt e v @ '' '' @ u)
                                 [\<lparr>pd_label = label, pd_value = v, pd_uom = unit,
                                   pd_warn = warning cfg, pd_crit = critical cfg\<rparr>])))))))"

definition check_metric :: "plugin \<Rightarrow> env \<Rightarrow> outcome \<times> call list" where
  "check_metric p e =
     (case get_metric_value p e of
        (Inl out, cs) \<Rightarrow> (out, cs)
      | (Inr v, cs) \<Rightarrow> (case report p e v of Inl f \<Rightarrow> (Fault f, cs) | Inr out \<Rightarrow> (out, cs)))"

text \<open>The main program: \<open>activate\<close>, then \<open>check_metric\<close>.\<close>

definition run :: "config \<Rightarrow> env \<Rightarrow> outcome \<times> call list" where
  "run cfg e =
     (case activate cfg e of
        (Inl out, cs) \<Rightarrow> (out, cs)
      | (Inr p, cs) \<Rightarrow> (case check_metric p e of (out, cs') \<Rightarrow> (out, cs @ cs')))"

text \<open>A call that goes to the metrics endpoint of the configured resource and metric.\<close>

fun is_metrics_call :: "config \<Rightarrow> call \<Rightarrow> bool" where
  "is_metrics_call cfg Authenticate = False"
| "is_metrics_call cfg (Send r) = (path r = metric_path cfg)"

section \<open>Sample runs\<close>

text \<open>
  A service with two metrics, one of which requires a dimension, used to run the
  definitions above on concrete inputs. The service answers the request for the metric
  definitions with the catalog and any other request with the given body.
\<close>

definition sample_resource :: string where
  "sample_resource =
     ''/subscriptions/s1/resourceGroups/g1/providers/Microsoft.Compute/virtualMachines/vm1''"

definition cpu_definition :: json where
  "cpu_definition =
     JObj [(''name'', JObj [(''value'', JStr ''Percentage CPU''),
                            (''localizedValue'', JStr ''CPU Percentage'')]),
           (''unit'', JStr ''Percent''),
           (''primaryAggregationType'', JStr ''Average''),
           (''isDimensionRequired'', JBool False)]"

definition transactions_definition :: json where
  "transactions_definition =
     JObj [(''name'', JObj [(''value'', JStr ''Transactions''),
                            (''localizedValue'', JStr ''Transactions'')]),
           (''unit'', JStr ''Count''),
           (''primaryAggregationType'', JStr ''Total''),
           (''isDimensionRequired'', JBool True),
           (''dimensions'', JArr [JObj [(''value'', JStr ''ApiName'')],
                                  JObj [(''value'', JStr ''GeoType'')]])]"

definition sample_catalog :: json where
  "sample_catalog = JArr [cpu_definition, transactions_definition]"

definition sample_service :: "json \<Rightarrow> request \<Rightarrow> reply" where
  "sample_service body r =
     (if path r = sample_resource @ ''/providers/Microsoft.Insights/metricDefinitions''
      then Body (JObj [(''value'', sample_catalog)])
      else Body body)"

text \<open>Python's \<open>str\<close> on a number that is a natural number; others do not occur below.\<close>

fun str_nat :: "nat \<Rightarrow> string" where
  "str_nat n =
     (if n < 10 then [''0123456789'' ! n]
      else str_nat (n div 10) @ [''0123456789'' ! (n mod 10)])"

fun sample_repr :: "json \<Rightarrow> string" where
  "sample_repr (JNum r) = (if r = of_int \<lfloor>r\<rfloor> \<and> 0 \<le> r then str_nat (nat \<lfloor>r\<rfloor>) else ''?'')"
| "sample_repr _ = ''?''"

definition sample_env :: "json \<Rightarrow> env" where
  "sample_env body =
     \<lparr>is_valid_resource_id = (\<lambda>rid. rid = sample_resource),
      py_float = (\<lambda>s. None),
      auth_error = None,
      send = sample_service body,
      py_repr = sample_repr\<rparr>"

definition sample_config :: config where
  "sample_config =
     \<lparr>resource = sample_resource, metric = ''Percentage CPU'',
      dimension = None, dimension_value = None, host = None, timeout = None,
      warning = None, critical = Some ''70''\<rparr>"

definition sample_plugin :: plugin where
  "sample_plugin =
     \<lparr>opts = sample_config, host_name = DEFAULT_AZURE_SERVICE_HOST, timeout_secs = None,
      metric_definitions = sample_catalog, metric_properties = cpu_definition\<rparr>"

definition metrics_body :: "json list \<Rightarrow> json" where
  "metrics_body series = JObj [(''value'', JArr [JObj [(''timeseries'', JArr series)]])]"

text \<open>
  Scenario C: the newest point has no average, the one before has the average 72.
\<close>

definition scenario_c_points :: "json list" where
  "scenario_c_points =
     [JObj [(''timeStamp'', JStr ''2018-05-01T10:00:00Z''), (''average'', JNum 72)],
      JObj [(''timeStamp'', JStr ''2018-05-01T10:01:00Z'')]]"

definition scenario_c_body :: json where
  "scenario_c_body = metrics_body [JObj [(''data'', JArr scenario_c_points)]]"

text \<open>The metric that requires a dimension, asked for with one.\<close>

definition dimension_config :: config where
  "dimension_config =
     \<lparr>resource = sample_resource, metric = ''Transactions'',
      dimension = Some ''ApiName'', dimension_value = Some ''GetBlob'', host = None,
      timeout = None, warning = Some ''80'', critical = Some ''90''\<rparr>"

definition dimension_plugin :: plugin where
  "dimension_plugin =
     \<lparr>opts = dimension_config, host_name = DEFAULT_AZURE_SERVICE_HOST, timeout_secs = None,
      metric_definitions = sample_catalog, metric_properties = transactions_definition\<rparr>"

text \<open>Points that carry no average at all, and points whose newest average is null.\<close>

definition lagging_points :: "json list" where
  "lagging_points =
     [JObj [(''timeStamp'', JStr ''2018-05-01T10:00:00Z'')],
      JObj [(''timeStamp'', JStr ''2018-05-01T10:01:00Z''), (''total'', JNum 3)]]"

definition null_points :: "json list" where
  "null_points =
     [JObj [(''timeStamp'', JStr ''2018-05-01T10:00:00Z''), (''average'', JNum 55)],
      JObj [(''timeStamp'', JStr ''2018-05-01T10:01:00Z''), (''average'', JNull)],
      JObj [(''timeStamp'', JStr ''2018-05-01T10:02:00Z'')]]"

text \<open>
  Scenario A: warning at 80, critical at 90, and the newest average is 45.
\<close>

definition scenario_a_config :: config where
  "scenario_a_config = sample_config\<lparr>warning := Some ''80'', critical := Some ''90''\<rparr>"

definition scenario_a_plugin :: plugin where
  "scenario_a_plugin = sample_plugin\<lparr>opts := scenario_a_config\<rparr>"

definition scenario_a_body :: json where
  "scenario_a_body =
     metrics_body [JObj [(''data'',
       JArr [JObj [(''timeStamp'', JStr ''2018-05-01T10:00:00Z''), (''average'', JNum 45)]])]]"

text \<open>A service that answers every request with a body that is not JSON.\<close>

definition text_env :: env where
  "text_env = (sample_env JNull)\<lparr>send := (\<lambda>r. Body (JStr ''Service Unavailable''))\<rparr>"

text \<open>
  Options with a dimension name and no value, with an empty name and no value, the first
  of these on a resource id the validator rejects, the metric that requires a dimension
  asked for without one, and a metric the catalog does not have.
\<close>

definition name_only_config :: config where
  "name_only_config = dimension_config\<lparr>dimension_value := None\<rparr>"

definition empty_name_config :: config where
  "empty_name_config = sample_config\<lparr>dimension := Some []\<rparr>"

definition bad_resource_config :: config where
  "bad_resource_config = name_only_config\<lparr>resource := ''vm1''\<rparr>"

definition no_dimension_config :: config where
  "no_dimension_config = dimension_config\<lparr>dimension := None, dimension_value := None\<rparr>"

definition unknown_metric_config :: config where
  "unknown_metric_config = sample_config\<lparr>metric := ''Disk Read Bytes''\<rparr>"

section \<open>The value fetch\<close>

lemma latest_value_skip:
  "\<forall>pt\<in>set vs. \<exists>kv. pt = JObj kv \<and> map_of kv agg = None \<Longrightarrow>
   latest_value agg (vs @ ws) = latest_value agg ws"
  by (induction vs) auto

lemma latest_value_found:
  assumes "map_of kvs agg = Some v"
      and "\<forall>pt\<in>set newer. \<exists>kv. pt = JObj kv \<and> map_of kv agg = None"
  shows "bind_f (reversed (JArr (older @ [JObj kvs] @ newer))) (latest_value agg) = Inr v"
proof -
  have "\<forall>pt\<in>set (rev newer). \<exists>kv. pt = JObj kv \<and> map_of kv agg = None"
    using assms(2) by simp
  then have "latest_value agg (rev newer @ JObj kvs # rev older) =
      latest_value agg (JObj kvs # rev older)"
    by (rule latest_value_skip)
  then show ?thesis
    using assms(1) by (simp add: bind_f_def)
qed

lemma latest_value_none:
  assumes "\<forall>pt\<in>set pts. \<exists>kv. pt = JObj kv \<and> map_of kv agg = None"
  shows "bind_f (reversed (JArr pts)) (latest_value agg) = Inr JNull"
proof -
  have "\<forall>pt\<in>set (rev pts). \<exists>kv. pt = JObj kv \<and> map_of kv agg = None"
    using assms by simp
  then have "latest_value agg (rev pts @ []) = latest_value agg []"
    by (rule latest_value_skip)
  then show ?thesis by (simp add: bind_f_def)
qed

text \<open>Reading a decoded body never raises \<open>CloudError\<close>: only the transport does.\<close>

lemma getitem_not_cloud: "getitem x k \<noteq> Inl (CloudError msg)"
  by (cases x) (auto split: option.splits)

lemma getitem0_not_cloud: "getitem0 x \<noteq> Inl (CloudError msg)"
  by (cases x rule: getitem0.cases) auto

lemma timeseries_of_not_cloud: "timeseries_of body \<noteq> Inl (CloudError msg)"
  using getitem_not_cloud getitem0_not_cloud
  by (auto simp: timeseries_of_def bind_f_def split: sum.splits)

lemma get_metric_value_body:
  assumes "send e (metrics_request p) = Body body"
  shows "get_metric_value p e =
     (case bind_f (timeseries_of body) (select_value p) of
        Inl f \<Rightarrow> Inl (Fault f) | Inr v \<Rightarrow> Inr v, [Send (metrics_request p)])"
  using assms timeseries_of_not_cloud [of body]
  by (auto simp: get_metric_value_def fetch_timeseries_def call_arm_rest_api_def
      except_cloud_error_def bind_io_def bind_f_def lift_def split: sum.splits fault.splits)

lemma check_metric_null:
  assumes "get_metric_value p e = (Inr JNull, cs)"
  shows "check_metric p e = (Exit UNKNOWN (no_value_message (opts p)) [], cs)"
  using assms by (simp add: check_metric_def report_def)

text \<open>
  Claim C1. When the first time series of the response has a data list in which some
  point is a mapping with the key \<open>primaryAggregationType\<close> lowercased, and every newer
  point is a mapping without that key, the value fetch returns the value of that point:
  it scans from the newest point backward and skips the points that lack the key. It has
  sent one request, to the metrics endpoint. (Scenario C of the spec is the sample run
  after the theorem.)
\<close>

theorem scan_returns_latest_carrying_point:
  assumes "send e (metrics_request p) = Body body"
      and "timeseries_of body = Inr (JArr (series # others))"
      and "getitem series ''data'' = Inr (JArr (older @ [JObj kvs] @ newer))"
      and "getitem (metric_properties p) ''primaryAggregationType'' = Inr (JStr agg)"
      and "map_of kvs (lower agg) = Some v"
      and "\<forall>pt\<in>set newer. \<exists>kv. pt = JObj kv \<and> map_of kv (lower agg) = None"
  shows "get_metric_value p e = (Inr v, [Send (metrics_request p)])"
proof -
  have "select_value p (JArr (series # others)) = Inr v"
    using assms(3,4) latest_value_found [OF assms(5,6), of older]
    by (simp add: select_value_def bind_f_def)
  then show ?thesis
    using assms(2) by (simp add: get_metric_value_body [OF assms(1)] bind_f_def)
qed


text \<open>
  Scenario C: the newest point has no average, the one before has the average 72 and
  the critical spec is \<open>70\<close>. The value fetched is 72 and the run ends CRITICAL.
\<close>

theorem scenario_c_fetches_72_and_is_critical:
  "get_metric_value sample_plugin (sample_env scenario_c_body) =
     (Inr (JNum 72), [Send (metrics_request sample_plugin)]) \<and>
   run sample_config (sample_env scenario_c_body) =
     (Exit CRITICAL ''CPU Percentage 72 percent''
        [\<lparr>pd_label = JStr ''Percentage CPU'', pd_value = JNum 72, pd_uom = Some ''%'',
          pd_warn = None, pd_crit = Some ''70''\<rparr>],
      [Authenticate, Send (definitions_request sample_plugin),
       Send (metrics_request sample_plugin)])"
proof -
  let ?old = "[(''timeStamp'', JStr ''2018-05-01T10:00:00Z''), (''average'', JNum 72)]"
  let ?new = "JObj [(''timeStamp'', JStr ''2018-05-01T10:01:00Z'')]"
  let ?series = "JObj [(''data'', JArr scenario_c_points)]"
  have h1: "send (sample_env scenario_c_body) (metrics_request sample_plugin) = Body scenario_c_body"
    by code_simp
  have h2: "timeseries_of scenario_c_body = Inr (JArr (?series # []))"
    by code_simp
  have h3: "getitem ?series ''data'' = Inr (JArr ([] @ [JObj ?old] @ [?new]))"
    by code_simp
  have h4: "getitem (metric_properties sample_plugin) ''primaryAggregationType'' =
      Inr (JStr ''Average'')"
    by code_simp
  have h5: "map_of ?old (lower ''Average'') = Some (JNum 72)"
    by code_simp
  have h6: "\<forall>pt\<in>set [?new]. \<exists>kv. pt = JObj kv \<and> map_of kv (lower ''Average'') = None"
    by (simp add: lower_def lower_char_def)
  have fetch: "get_metric_value sample_plugin (sample_env scenario_c_body) =
      (Inr (JNum 72), [Send (metrics_request sample_plugin)])"
    by (rule scan_returns_latest_carrying_point [OF h1 h2 h3 h4 h5 h6])
  have status: "run sample_config (sample_env scenario_c_body) =
     (Exit CRITICAL ''CPU Percentage 72 percent''
        [\<lparr>pd_label = JStr ''Percentage CPU'', pd_value = JNum 72, pd_uom = Some ''%'',
          pd_warn = None, pd_crit = Some ''70''\<rparr>],
      [Authenticate, Send (definitions_request sample_plugin),
       Send (metrics_request sample_plugin)])"
    by code_simp
  from fetch status show ?thesis by (rule conjI)
qed

text \<open>
  Claim C2. When the time series list of the response is empty, or the data list of its
  first series is empty, or every point of that list is a mapping without the
  primary-aggregation key, the value fetch returns \<open>None\<close> (no data) and raises nothing,
  and the check exits UNKNOWN with the message that names the metric and, when a
  dimension is given, the dimension. No performance data is added.
\<close>

theorem no_data_is_unknown:
  assumes "send e (metrics_request p) = Body body"
      and "timeseries_of body = Inr ts"
      and "ts = JArr [] \<or>
           (\<exists>series others pts agg.
              ts = JArr (series # others) \<and>
              getitem series ''data'' = Inr (JArr pts) \<and>
              getitem (metric_properties p) ''primaryAggregationType'' = Inr (JStr agg) \<and>
              (\<forall>pt\<in>set pts. \<exists>kv. pt = JObj kv \<and> map_of kv (lower agg) = None))"
  shows "get_metric_value p e = (Inr JNull, [Send (metrics_request p)]) \<and>
         check_metric p e =
           (Exit UNKNOWN
              (''No value available for metric '' @ metric (opts p) @
               (case dimension (opts p) of None \<Rightarrow> [] | Some d \<Rightarrow> '' and dimension '' @ d)) [],
            [Send (metrics_request p)])"
proof -
  have sel: "select_value p ts = Inr JNull"
    using assms(3)
  proof
    assume "ts = JArr []"
    then show ?thesis by (simp add: select_value_def)
  next
    assume "\<exists>series others pts agg.
              ts = JArr (series # others) \<and>
              getitem series ''data'' = Inr (JArr pts) \<and>
              getitem (metric_properties p) ''primaryAggregationType'' = Inr (JStr agg) \<and>
              (\<forall>pt\<in>set pts. \<exists>kv. pt = JObj kv \<and> map_of kv (lower agg) = None)"
    then obtain series others pts agg where
      ts: "ts = JArr (series # others)" and
      d: "getitem series ''data'' = Inr (JArr pts)" and
      a: "getitem (metric_properties p) ''primaryAggregationType'' = Inr (JStr agg)" and
      none: "\<forall>pt\<in>set pts. \<exists>kv. pt = JObj kv \<and> map_of kv (lower agg) = None"
      by blast
    show ?thesis
      using ts d a latest_value_none [OF none]
      by (simp add: select_value_def bind_f_def)
  qed
  have fetch: "get_metric_value p e = (Inr JNull, [Send (metrics_request p)])"
    using assms(2) sel by (simp add: get_metric_value_body [OF assms(1)] bind_f_def)
  from check_metric_null [OF fetch] fetch show ?thesis
    by (simp add: no_value_message_def)
qed

text \<open>
  Sample runs of C2: an empty list of series with a dimension given, a series whose
  points carry no average, and a series without points.
\<close>

theorem empty_and_lagging_series_are_unknown:
  "check_metric dimension_plugin (sample_env (metrics_body [])) =
     (Exit UNKNOWN ''No value available for metric Transactions and dimension ApiName'' [],
      [Send (metrics_request dimension_plugin)]) \<and>
   check_metric sample_plugin (sample_env (metrics_body [JObj [(''data'', JArr lagging_points)]])) =
     (Exit UNKNOWN ''No value available for metric Percentage CPU'' [],
      [Send (metrics_request sample_plugin)]) \<and>
   check_metric sample_plugin (sample_env (metrics_body [JObj [(''data'', JArr [])]])) =
     (Exit UNKNOWN ''No value available for metric Percentage CPU'' [],
      [Send (metrics_request sample_plugin)])"
proof -
  let ?lag = "JObj [(''data'', JArr lagging_points)]"
  let ?nil = "JObj [(''data'', JArr [])]"
  have a1: "send (sample_env (metrics_body [])) (metrics_request dimension_plugin) =
      Body (metrics_body [])"
    by code_simp
  have a2: "timeseries_of (metrics_body []) = Inr (JArr [])"
    by code_simp
  have a3: "JArr [] = JArr [] \<or>
           (\<exists>series others pts agg.
              JArr [] = JArr (series # others) \<and>
              getitem series ''data'' = Inr (JArr pts) \<and>
              getitem (metric_properties dimension_plugin) ''primaryAggregationType'' =
                Inr (JStr agg) \<and>
              (\<forall>pt\<in>set pts. \<exists>kv. pt = JObj kv \<and> map_of kv (lower agg) = None))"
    by simp
  have b1: "send (sample_env (metrics_body [?lag])) (metrics_request sample_plugin) =
      Body (metrics_body [?lag])"
    by code_simp
  have b2: "timeseries_of (metrics_body [?lag]) = Inr (JArr [?lag])"
    by code_simp
  have b3: "getitem ?lag ''data'' = Inr (JArr lagging_points)"
    by code_simp
  have b4: "getitem (metric_properties sample_plugin) ''primaryAggregationType'' =
      Inr (JStr ''Average'')"
    by code_simp
  have b5: "\<forall>pt\<in>set lagging_points. \<exists>kv. pt = JObj kv \<and> map_of kv (lower ''Average'') = None"
    by (simp add: lagging_points_def lower_def lower_char_def)
  have b6: "JArr [?lag] = JArr [] \<or>
           (\<exists>series others pts agg.
              JArr [?lag] = JArr (series # others) \<and>
              getitem series ''data'' = Inr (JArr pts) \<and>
              getitem (metric_properties sample_plugin) ''primaryAggregationType'' =
                Inr (JStr agg) \<and>
              (\<forall>pt\<in>set pts. \<exists>kv. pt = JObj kv \<and> map_of kv (lower agg) = None))"
    using b3 b4 b5 by blast
  have c1: "send (sample_env (metrics_body [?nil])) (metrics_request sample_plugin) =
      Body (metrics_body [?nil])"
    by code_simp
  have c2: "timeseries_of (metrics_body [?nil]) = Inr (JArr [?nil])"
    by code_simp
  have c3: "getitem ?nil ''data'' = Inr (JArr [])"
    by code_simp
  have c5: "\<forall>pt\<in>set []. \<exists>kv. pt = JObj kv \<and> map_of kv (lower ''Average'') = None"
    by simp
  have c6: "JArr [?nil] = JArr [] \<or>
           (\<exists>series others pts agg.
              JArr [?nil] = JArr (series # others) \<and>
              getitem series ''data'' = Inr (JArr pts) \<and>
              getitem (metric_properties sample_plugin) ''primaryAggregationType'' =
                Inr (JStr agg) \<and>
              (\<forall>pt\<in>set pts. \<exists>kv. pt = JObj kv \<and> map_of kv (lower agg) = None))"
    using c3 b4 c5 by blast
  have m1: "metric (opts dimension_plugin) = ''Transactions''"
    by code_simp
  have m2: "dimension (opts dimension_plugin) = Some ''ApiName''"
    by code_simp
  have m3: "metric (opts sample_plugin) = ''Percentage CPU''"
    by code_simp
  have m4: "dimension (opts sample_plugin) = None"
    by code_simp
  show ?thesis
    using no_data_is_unknown [OF a1 a2 a3] no_data_is_unknown [OF b1 b2 b6]
      no_data_is_unknown [OF c1 c2 c6]
    by (simp add: m1 m2 m3 m4)
qed

text \<open>
  Claim C10. When the newest point that carries the primary-aggregation key maps it to
  null, the value fetch returns that null whatever the older points are (they are not
  looked at), and the check exits UNKNOWN with the no-value message: the outcome and the
  calls are those of a run whose response has no series at all.
\<close>

theorem null_value_stops_the_scan:
  assumes "send e (metrics_request p) = Body body"
      and "timeseries_of body = Inr (JArr (series # others))"
      and "getitem series ''data'' = Inr (JArr (older @ [JObj kvs] @ newer))"
      and "getitem (metric_properties p) ''primaryAggregationType'' = Inr (JStr agg)"
      and "map_of kvs (lower agg) = Some JNull"
      and "\<forall>pt\<in>set newer. \<exists>kv. pt = JObj kv \<and> map_of kv (lower agg) = None"
      and "send e' (metrics_request p) = Body (metrics_body [])"
  shows "get_metric_value p e = (Inr JNull, [Send (metrics_request p)]) \<and>
         check_metric p e =
           (Exit UNKNOWN
              (''No value available for metric '' @ metric (opts p) @
               (case dimension (opts p) of None \<Rightarrow> [] | Some d \<Rightarrow> '' and dimension '' @ d)) [],
            [Send (metrics_request p)]) \<and>
         check_metric p e' = check_metric p e"
proof -
  have sel: "select_value p (JArr (series # others)) = Inr JNull"
    using assms(3,4) latest_value_found [OF assms(5,6), of older]
    by (simp add: select_value_def bind_f_def)
  have fetch: "get_metric_value p e = (Inr JNull, [Send (metrics_request p)])"
    using assms(2) sel by (simp add: get_metric_value_body [OF assms(1)] bind_f_def)
  have "timeseries_of (metrics_body []) = Inr (JArr [])"
    by (simp add: timeseries_of_def metrics_body_def bind_f_def)
  then have fetch': "get_metric_value p e' = (Inr JNull, [Send (metrics_request p)])"
    by (simp add: get_metric_value_body [OF assms(7)] bind_f_def select_value_def)
  from check_metric_null [OF fetch] check_metric_null [OF fetch'] fetch show ?thesis
    by (simp add: no_value_message_def)
qed

text \<open>
  Sample run of C10: the averages are 55, then null, and the newest point has none.
\<close>

theorem null_average_hides_older_value:
  "check_metric sample_plugin (sample_env (metrics_body [JObj [(''data'', JArr null_points)]])) =
     (Exit UNKNOWN ''No value available for metric Percentage CPU'' [],
      [Send (metrics_request sample_plugin)]) \<and>
   check_metric sample_plugin (sample_env (metrics_body [])) =
   check_metric sample_plugin (sample_env (metrics_body [JObj [(''data'', JArr null_points)]]))"
proof -
  let ?series = "JObj [(''data'', JArr null_points)]"
  let ?older = "[JObj [(''timeStamp'', JStr ''2018-05-01T10:00:00Z''), (''average'', JNum 55)]]"
  let ?kvs = "[(''timeStamp'', JStr ''2018-05-01T10:01:00Z''), (''average'', JNull)]"
  let ?newer = "[JObj [(''timeStamp'', JStr ''2018-05-01T10:02:00Z'')]]"
  have h1: "send (sample_env (metrics_body [?series])) (metrics_request sample_plugin) =
      Body (metrics_body [?series])"
    by code_simp
  have h2: "timeseries_of (metrics_body [?series]) = Inr (JArr (?series # []))"
    by code_simp
  have h3: "getitem ?series ''data'' = Inr (JArr (?older @ [JObj ?kvs] @ ?newer))"
    by code_simp
  have h4: "getitem (metric_properties sample_plugin) ''primaryAggregationType'' =
      Inr (JStr ''Average'')"
    by code_simp
  have h5: "map_of ?kvs (lower ''Average'') = Some JNull"
    by code_simp
  have h6: "\<forall>pt\<in>set ?newer. \<exists>kv. pt = JObj kv \<and> map_of kv (lower ''Average'') = None"
    by (simp add: lower_def lower_char_def)
  have h7: "send (sample_env (metrics_body [])) (metrics_request sample_plugin) =
      Body (metrics_body [])"
    by code_simp
  have m3: "metric (opts sample_plugin) = ''Percentage CPU''"
    by code_simp
  have m4: "dimension (opts sample_plugin) = None"
    by code_simp
  show ?thesis
    using null_value_stops_the_scan [OF h1 h2 h3 h4 h5 h6 h7]
    by (simp add: m3 m4)
qed

section \<open>The request and the report\<close>

text \<open>
  Claim C8. The value fetch sends one request, to the metrics path of the resource and
  metric; its parameters have the entry \<open>$filter\<close> exactly when a dimension name is set,
  and then the filter is the name, \<open>eq\<close>, and the dimension value between apostrophes.
  For the sample options it is \<open>ApiName eq 'GetBlob'\<close>.
\<close>

theorem filter_iff_dimension:
  "snd (get_metric_value p e) = [Send (metrics_request p)] \<and>
   path (metrics_request p) =
     resource (opts p) @ ''/providers/Microsoft.Insights/metrics/'' @ metric (opts p) \<and>
   map_of (params (metrics_request p)) ''$filter'' =
     (case dimension (opts p) of
        None \<Rightarrow> None
      | Some d \<Rightarrow> Some (d @ '' eq '' @ [CHR 0x27] @ fmt_opt (dimension_value (opts p)) @ [CHR 0x27])) \<and>
   map_of (params (metrics_request dimension_plugin)) ''$filter'' =
     Some (''ApiName eq '' @ [CHR 0x27] @ ''GetBlob'' @ [CHR 0x27])"
proof -
  have calls: "snd (get_metric_value p e) = [Send (metrics_request p)]"
    by (auto simp: get_metric_value_def fetch_timeseries_def call_arm_rest_api_def
        except_cloud_error_def bind_io_def lift_def split: sum.splits fault.splits reply.splits prod.splits)
  have pth: "path (metrics_request p) =
     resource (opts p) @ ''/providers/Microsoft.Insights/metrics/'' @ metric (opts p)"
    by (simp add: metrics_request_def arm_request_def metric_path_def)
  have flt: "map_of (params (metrics_request p)) ''$filter'' =
     (case dimension (opts p) of
        None \<Rightarrow> None
      | Some d \<Rightarrow> Some (d @ '' eq '' @ [CHR 0x27] @ fmt_opt (dimension_value (opts p)) @ [CHR 0x27]))"
    by (simp add: metrics_request_def arm_request_def metric_query_def apostrophe_def
        split: option.splits)
  have ex: "map_of (params (metrics_request dimension_plugin)) ''$filter'' =
     Some (''ApiName eq '' @ [CHR 0x27] @ ''GetBlob'' @ [CHR 0x27])"
    by code_simp
  from calls pth flt ex show ?thesis by simp
qed

text \<open>
  Claim C9. For a fetched number on which the thresholds give a status, the message is
  the localized label of the metric, the value as Python prints it and the unit
  lowercased, separated by single spaces; the one entry of performance data has the name
  id of the metric as label, the value, the symbol of the unit (\<open>%\<close> for Percent, \<open>B\<close>
  for Bytes, \<open>s\<close> for Seconds, none for any other unit) and the warning and critical
  specs as given.
\<close>

theorem message_and_perfdata:
  assumes "get_metric_value p e = (Inr (JNum x), cs)"
      and "check_threshold (JNum x) (warning (opts p)) (critical (opts p)) = Inr st"
      and "getitem (metric_properties p) ''name'' = Inr nm"
      and "getitem nm ''value'' = Inr ident"
      and "getitem nm ''localizedValue'' = Inr (JStr label)"
      and "getitem (metric_properties p) ''unit'' = Inr (JStr unit)"
  shows "check_metric p e =
     (Exit st (label @ '' '' @ py_repr e (JNum x) @ '' '' @ lower unit)
        [\<lparr>pd_label = ident, pd_value = JNum x,
          pd_uom = (if unit = ''Percent'' then Some ''%''
                    else if unit = ''Bytes'' then Some ''B''
                    else if unit = ''Seconds'' then Some ''s'' else None),
          pd_warn = warning (opts p), pd_crit = critical (opts p)\<rparr>], cs)"
  using assms
  by (simp add: check_metric_def report_def bind_f_def metric_id_def Let_def
      AZURE_METRICS_UNIT_SYMBOLS_def)

text \<open>Scenario A as the sample run of C9: status OK, message \<open>CPU Percentage 45 percent\<close>.\<close>

theorem scenario_a_reports_ok:
  "check_metric scenario_a_plugin (sample_env scenario_a_body) =
     (Exit OK ''CPU Percentage 45 percent''
        [\<lparr>pd_label = JStr ''Percentage CPU'', pd_value = JNum 45, pd_uom = Some ''%'',
          pd_warn = Some ''80'', pd_crit = Some ''90''\<rparr>],
      [Send (metrics_request scenario_a_plugin)])"
proof -
  let ?nm = "JObj [(''value'', JStr ''Percentage CPU''), (''localizedValue'', JStr ''CPU Percentage'')]"
  have h1: "get_metric_value scenario_a_plugin (sample_env scenario_a_body) =
      (Inr (JNum 45), [Send (metrics_request scenario_a_plugin)])"
    by code_simp
  have h2: "check_threshold (JNum 45) (warning (opts scenario_a_plugin))
      (critical (opts scenario_a_plugin)) = Inr OK"
    by code_simp
  have h3: "getitem (metric_properties scenario_a_plugin) ''name'' = Inr ?nm"
    by code_simp
  have h4: "getitem ?nm ''value'' = Inr (JStr ''Percentage CPU'')"
    by code_simp
  have h5: "getitem ?nm ''localizedValue'' = Inr (JStr ''CPU Percentage'')"
    by code_simp
  have h6: "getitem (metric_properties scenario_a_plugin) ''unit'' = Inr (JStr ''Percent'')"
    by code_simp
  have r: "py_repr (sample_env scenario_a_body) (JNum 45) = ''45''"
    by code_simp
  have l: "lower ''Percent'' = ''percent''"
    by code_simp
  have w: "warning (opts scenario_a_plugin) = Some ''80''"
    by code_simp
  have c: "critical (opts scenario_a_plugin) = Some ''90''"
    by code_simp
  show ?thesis
    using message_and_perfdata [OF h1 h2 h3 h4 h5 h6]
    by (simp add: r l w c)
qed

section \<open>Responses of another shape\<close>

text \<open>
  Claim C3 says that every run ends in one of the four statuses and never by an
  exception nobody handles. The source catches \<open>CloudError\<close> only: when the metrics
  endpoint answers with an empty \<open>value\<close> list, \<open>metric_values['value'][0]\<close> raises
  \<open>IndexError\<close>, and when the definitions endpoint answers with text that is not JSON,
  \<open>metrics['value']\<close> raises \<open>TypeError\<close> on the string. Both runs end by that
  exception.
\<close>

theorem malformed_bodies_fault:
  "run sample_config (sample_env (JObj [(''value'', JArr [])])) =
     (Fault IndexError,
      [Authenticate, Send (definitions_request sample_plugin),
       Send (metrics_request sample_plugin)]) \<and>
   run sample_config text_env =
     (Fault TypeError, [Authenticate, Send (definitions_request sample_plugin)])"
  by code_simp

section \<open>Thresholds\<close>

lemma parse_range_10_20:
  "parse_range ''10:20'' = Some \<lparr>range_inverted = False, range_lo = Some 10, range_hi = Some 20\<rparr>"
  by code_simp

lemma parse_range_at_10_20:
  "parse_range ''@10:20'' = Some \<lparr>range_inverted = True, range_lo = Some 10, range_hi = Some 20\<rparr>"
  by code_simp

lemma fires_10_20: "fires (Some ''10:20'') (JNum x) = Inr (x < 10 \<or> 20 < x)"
  using parse_range_10_20
  by (auto simp: fires_def bind_f_def alerts_def in_range_def)

lemma fires_at_10_20: "fires (Some ''@10:20'') (JNum x) = Inr (\<not> (x < 10 \<or> 20 < x))"
  using parse_range_at_10_20
  by (auto simp: fires_def bind_f_def alerts_def in_range_def)

text \<open>
  Claim C4. The range \<open>10:20\<close> does not alert on 10 and on 20 and alerts on 9.9 and on
  20.1: it alerts exactly below 10 and above 20, and \<open>@10:20\<close> alerts exactly where
  \<open>10:20\<close> does not. A spec that is not given never fires. The critical spec is looked
  at first: the status is CRITICAL when it fires, whatever the warning spec is, else
  WARNING when the warning spec fires, else OK.
\<close>

theorem range_thresholds:
  "fires (Some ''10:20'') (JNum 10) = Inr False \<and>
   fires (Some ''10:20'') (JNum 20) = Inr False \<and>
   fires (Some ''10:20'') (JNum 9.9) = Inr True \<and>
   fires (Some ''10:20'') (JNum 20.1) = Inr True \<and>
   (\<forall>x. fires (Some ''10:20'') (JNum x) = Inr (x < 10 \<or> 20 < x)) \<and>
   (\<forall>x. fires (Some ''@10:20'') (JNum x) = Inr (\<not> (x < 10 \<or> 20 < x))) \<and>
   (\<forall>v. fires None v = Inr False) \<and>
   (\<forall>v w c. fires c v = Inr True \<longrightarrow> check_threshold v w c = Inr CRITICAL) \<and>
   (\<forall>v w c. fires c v = Inr False \<and> fires w v = Inr True \<longrightarrow>
      check_threshold v w c = Inr WARNING) \<and>
   (\<forall>v w c. fires c v = Inr False \<and> fires w v = Inr False \<longrightarrow>
      check_threshold v w c = Inr OK)"
proof -
  have a: "fires (Some ''10:20'') (JNum 10) = Inr False"
    by (simp add: fires_10_20)
  have b: "fires (Some ''10:20'') (JNum 20) = Inr False"
    by (simp add: fires_10_20)
  have c: "fires (Some ''10:20'') (JNum 9.9) = Inr True"
    by (simp add: fires_10_20)
  have d: "fires (Some ''10:20'') (JNum 20.1) = Inr True"
    by (simp add: fires_10_20)
  have e: "\<forall>v. fires None v = Inr False"
    by (simp add: fires_def)
  have f: "\<forall>v w c. fires c v = Inr True \<longrightarrow> check_threshold v w c = Inr CRITICAL"
    by (simp add: check_threshold_def bind_f_def)
  have g: "\<forall>v w c. fires c v = Inr False \<and> fires w v = Inr True \<longrightarrow>
      check_threshold v w c = Inr WARNING"
    by (simp add: check_threshold_def bind_f_def)
  have h: "\<forall>v w c. fires c v = Inr False \<and> fires w v = Inr False \<longrightarrow>
      check_threshold v w c = Inr OK"
    by (simp add: check_threshold_def bind_f_def)
  from a b c d fires_10_20 fires_at_10_20 e f g h show ?thesis by blast
qed

text \<open>
  Sample values for C4 with warning 80 and critical 90; in the last one the warning spec
  is no range at all and is never looked at.
\<close>

theorem thresholds_80_90:
  "check_threshold (JNum 95) (Some ''80'') (Some ''90'') = Inr CRITICAL \<and>
   check_threshold (JNum 85) (Some ''80'') (Some ''90'') = Inr WARNING \<and>
   check_threshold (JNum 45) (Some ''80'') (Some ''90'') = Inr OK \<and>
   check_threshold (JNum 95) (Some ''not a range'') (Some ''90'') = Inr CRITICAL"
proof -
  have c95: "fires (Some ''90'') (JNum 95) = Inr True" by code_simp
  have c85: "fires (Some ''90'') (JNum 85) = Inr False" by code_simp
  have w85: "fires (Some ''80'') (JNum 85) = Inr True" by code_simp
  have c45: "fires (Some ''90'') (JNum 45) = Inr False" by code_simp
  have w45: "fires (Some ''80'') (JNum 45) = Inr False" by code_simp
  note t = range_thresholds
  have crit: "\<forall>v w c. fires c v = Inr True \<longrightarrow> check_threshold v w c = Inr CRITICAL"
    using t by blast
  have warn: "\<forall>v w c. fires c v = Inr False \<and> fires w v = Inr True \<longrightarrow>
      check_threshold v w c = Inr WARNING"
    using t by blast
  have ok: "\<forall>v w c. fires c v = Inr False \<and> fires w v = Inr False \<longrightarrow>
      check_threshold v w c = Inr OK"
    using t by blast
  from crit c95 have r1: "check_threshold (JNum 95) (Some ''80'') (Some ''90'') = Inr CRITICAL"
    by blast
  from warn c85 w85 have r2: "check_threshold (JNum 85) (Some ''80'') (Some ''90'') = Inr WARNING"
    by blast
  from ok c45 w45 have r3: "check_threshold (JNum 45) (Some ''80'') (Some ''90'') = Inr OK"
    by blast
  from crit c95 have r4: "check_threshold (JNum 95) (Some ''not a range'') (Some ''90'') = Inr CRITICAL"
    by blast
  from r1 r2 r3 r4 show ?thesis by blast
qed

section \<open>Options, catalog and dimensions\<close>

lemma comprehension_map:
  "map f xs = map (\<lambda>n. Inr (g n)) ns \<Longrightarrow> comprehension f xs = Inr (map g ns)"
proof (induction xs arbitrary: ns)
  case Nil
  then show ?case by simp
next
  case (Cons x xs)
  then obtain n ns' where ns: "ns = n # ns'" by (cases ns) auto
  with Cons.prems have "f x = Inr (g n)" and "map f xs = map (\<lambda>n. Inr (g n)) ns'"
    by simp_all
  with Cons.IH [of ns'] ns show ?case by simp
qed

lemma join_names: "join (map JStr names) = Inr (join_strs names)"
proof -
  have "map as_str (map JStr names) = map (\<lambda>n. Inr (id n)) names" by simp
  then have "comprehension as_str (map JStr names) = Inr (map id names)"
    by (rule comprehension_map)
  then show ?thesis by (simp add: join_def)
qed

lemma check_options_opts:
  "check_options cfg e = (Inr p, cs) \<Longrightarrow>
   opts p = cfg \<and> cs = [] \<and> metric_properties p = JNull"
  by (auto simp: check_options_def stop_def ret_def Let_def split: if_splits option.splits)

lemma authenticate_opts:
  "authenticate p e = (Inr q, cs) \<Longrightarrow> q = p \<and> cs = [Authenticate]"
  by (auto simp: authenticate_def split: option.splits)

lemma load_definitions_opts:
  "load_definitions p e = (Inr q, cs) \<Longrightarrow>
   opts q = opts p \<and> cs = [Send (definitions_request p)]"
  by (auto simp: load_definitions_def get_metric_definitions_def call_arm_rest_api_def
      except_cloud_error_def bind_io_def ret_def
      split: prod.splits sum.splits fault.splits reply.splits)

lemma bind_io_Inr:
  "bind_io m f = (Inr y, cs) \<Longrightarrow>
   \<exists>x cs1 cs2. m = (Inr x, cs1) \<and> f x = (Inr y, cs2) \<and> cs = cs1 @ cs2"
  by (auto simp: bind_io_def split: prod.splits sum.splits)

lemma connect_opts:
  assumes "connect cfg e = (Inr p, cs)"
  shows "opts p = cfg \<and> (\<exists>q. opts q = cfg \<and> cs = [Authenticate, Send (definitions_request q)])"
proof -
  from assms obtain p1 c1 c2 where
    a: "check_options cfg e = (Inr p1, c1)" and
    b: "bind_io (authenticate p1 e) (\<lambda>p. load_definitions p e) = (Inr p, c2)" and
    c: "cs = c1 @ c2"
    unfolding connect_def by (blast dest: bind_io_Inr)
  from b obtain p2 c3 c4 where
    d: "authenticate p1 e = (Inr p2, c3)" and
    f: "load_definitions p2 e = (Inr p, c4)" and
    g: "c2 = c3 @ c4"
    by (blast dest: bind_io_Inr)
  from check_options_opts [OF a] authenticate_opts [OF d] load_definitions_opts [OF f] c g
  show ?thesis by auto
qed

lemma resolve_metric_opts:
  "resolve_metric p = (Inr q, cs) \<Longrightarrow> opts q = opts p \<and> cs = []"
  by (auto simp: resolve_metric_def bind_io_def lift_def ret_def stop_def
      split: prod.splits sum.splits if_splits)

lemma lookup_metric_opts:
  assumes "lookup_metric cfg e = (Inr p, cs)"
  shows "opts p = cfg \<and> (\<exists>q. opts q = cfg \<and> cs = [Authenticate, Send (definitions_request q)])"
proof -
  from assms obtain p1 c1 c2 where
    a: "connect cfg e = (Inr p1, c1)" and
    b: "resolve_metric p1 = (Inr p, c2)" and
    c: "cs = c1 @ c2"
    unfolding lookup_metric_def by (blast dest: bind_io_Inr)
  from connect_opts [OF a] resolve_metric_opts [OF b] c show ?thesis by auto
qed

lemma definitions_not_metrics:
  "opts q = cfg \<Longrightarrow> \<not> is_metrics_call cfg (Send (definitions_request q))"
  by (simp add: definitions_request_def arm_request_def metric_path_def)

text \<open>
  Claim C5, as amended. When the validator accepts the resource id and exactly one of
  the dimension name and the dimension value is a non-empty string (the other is not
  given, or empty), the run ends with the usage error that the two options must be used
  together, and no call has been made.
\<close>

theorem mismatched_dimension_options:
  assumes "is_valid_resource_id e (resource cfg)"
      and "opt_truthy (dimension cfg) \<noteq> opt_truthy (dimension_value cfg)"
  shows "run cfg e =
     (UsageError ''--dimension and --dimension-value must be used together'', [])"
  using assms
  by (simp add: run_def activate_def lookup_metric_def connect_def check_options_def
      bind_io_def stop_def)

text \<open>Sample run of C5: a dimension name without a value.\<close>

theorem name_without_value_is_refused:
  "is_valid_resource_id (sample_env JNull) (resource name_only_config) \<and>
   run name_only_config (sample_env JNull) =
     (UsageError ''--dimension and --dimension-value must be used together'', [])"
proof -
  have h1: "is_valid_resource_id (sample_env JNull) (resource name_only_config)"
    by code_simp
  have h2: "opt_truthy (dimension name_only_config) \<noteq> opt_truthy (dimension_value name_only_config)"
    by code_simp
  from h1 mismatched_dimension_options [OF h1 h2] show ?thesis by (rule conjI)
qed

text \<open>
  Claim C5 as stated does not hold for all inputs. An empty dimension name counts as
  not given (line 103 compares \<open>bool\<close> of the two options), so with no value the run
  goes on, authenticates, fetches the catalog and ends with another usage error. And
  the resource id is checked first (line 100): on a rejected id the usage error is
  about the resource id.
\<close>

theorem one_dimension_option_other_errors:
  "dimension empty_name_config = Some [] \<and>
   dimension_value empty_name_config = None \<and>
   run empty_name_config (sample_env JNull) =
     (UsageError
        ''Unknown dimension  for metric Percentage CPU. Supported dimensions are: '',
      [Authenticate, Send (definitions_request sample_plugin)]) \<and>
   dimension bad_resource_config = Some ''ApiName'' \<and>
   dimension_value bad_resource_config = None \<and>
   run bad_resource_config (sample_env JNull) = (UsageError ''invalid resource ID'', [])"
  by code_simp

text \<open>
  Claim C6. When the run has found the definition of the requested metric, that
  definition has \<open>isDimensionRequired\<close> true and no dimension name is given, the run ends
  with the usage error that lists the dimension ids of the definition, in their order,
  and no call of the run went to the metrics endpoint.
\<close>

theorem required_dimension_missing:
  assumes "lookup_metric cfg e = (Inr p, cs)"
      and "getitem (metric_properties p) ''isDimensionRequired'' = Inr (JBool True)"
      and "dimension cfg = None"
      and "get_default (metric_properties p) ''dimensions'' (JArr []) = Inr (JArr ds)"
      and "map (\<lambda>d. getitem d ''value'') ds = map (\<lambda>n. Inr (JStr n)) names"
  shows "run cfg e =
     (UsageError (''Dimension required for metric '' @ metric cfg @
                  ''. Supported dimensions are: '' @ join_strs names), cs) \<and>
     filter (is_metrics_call cfg) (snd (run cfg e)) = []"
proof -
  from lookup_metric_opts [OF assms(1)] obtain q where
    o: "opts p = cfg" and q: "opts q = cfg" and
    cs: "cs = [Authenticate, Send (definitions_request q)]"
    by blast
  have ids: "dimension_ids p = Inr (map JStr names)"
    using assms(4) comprehension_map [OF assms(5)]
    by (simp add: dimension_ids_def bind_f_def)
  have "resolve_dimension p =
     (Inl (UsageError (''Dimension required for metric '' @ metric cfg @
                  ''. Supported dimensions are: '' @ join_strs names)), [])"
    using ids assms(2,3) o
    by (simp add: resolve_dimension_def is_dimension_required_def bind_io_def lift_def
        stop_def join_names)
  then have r: "run cfg e =
     (UsageError (''Dimension required for metric '' @ metric cfg @
                  ''. Supported dimensions are: '' @ join_strs names), cs)"
    using assms(1) by (simp add: run_def activate_def bind_io_def)
  moreover have "filter (is_metrics_call cfg) cs = []"
    using cs definitions_not_metrics [OF q] by simp
  ultimately show ?thesis by simp
qed

text \<open>Sample run of C6 (Scenario B): Transactions asked for without a dimension.\<close>

theorem transactions_needs_a_dimension:
  "run no_dimension_config (sample_env JNull) =
     (UsageError
        ''Dimension required for metric Transactions. Supported dimensions are: ApiName, GeoType'',
      [Authenticate, Send (definitions_request sample_plugin)]) \<and>
   filter (is_metrics_call no_dimension_config) (snd (run no_dimension_config (sample_env JNull))) = []"
proof -
  let ?p = "dimension_plugin\<lparr>opts := no_dimension_config\<rparr>"
  let ?ds = "[JObj [(''value'', JStr ''ApiName'')], JObj [(''value'', JStr ''GeoType'')]]"
  have h1: "lookup_metric no_dimension_config (sample_env JNull) =
      (Inr ?p, [Authenticate, Send (definitions_request sample_plugin)])"
    by code_simp
  have h2: "getitem (metric_properties ?p) ''isDimensionRequired'' = Inr (JBool True)"
    by code_simp
  have h3: "dimension no_dimension_config = None"
    by code_simp
  have h4: "get_default (metric_properties ?p) ''dimensions'' (JArr []) = Inr (JArr ?ds)"
    by code_simp
  have h5: "map (\<lambda>d. getitem d ''value'') ?ds = map (\<lambda>n. Inr (JStr n)) [''ApiName'', ''GeoType'']"
    by simp
  have m: "metric no_dimension_config = ''Transactions''"
    by code_simp
  have j: "join_strs [''ApiName'', ''GeoType''] = ''ApiName, GeoType''"
    by simp
  note r = required_dimension_missing [OF h1 h2 h3 h4 h5]
  have a: "run no_dimension_config (sample_env JNull) =
     (UsageError
        ''Dimension required for metric Transactions. Supported dimensions are: ApiName, GeoType'',
      [Authenticate, Send (definitions_request sample_plugin)])"
    using r [THEN conjunct1] by (simp add: m j)
  have b: "filter (is_metrics_call no_dimension_config)
      (snd (run no_dimension_config (sample_env JNull))) = []"
    by (rule r [THEN conjunct2])
  from a b show ?thesis by (rule conjI)
qed

text \<open>
  Claim C7. When the run has fetched the catalog and the requested metric is not among
  the name ids of its definitions, the run ends with the usage error that lists all
  those name ids, in the order of the catalog.
\<close>

theorem unknown_metric_lists_catalog:
  assumes "connect cfg e = (Inr p, cs)"
      and "metric_definitions p = JArr defs"
      and "map metric_id defs = map (\<lambda>n. Inr (JStr n)) names"
      and "metric cfg \<notin> set names"
  shows "run cfg e =
     (UsageError (''Unknown metric '' @ metric cfg @ '' for specified resource. '' @
                  ''Supported metrics are: '' @ join_strs names), cs)"
proof -
  from connect_opts [OF assms(1)] have o: "opts p = cfg" by blast
  have ids: "comprehension metric_id defs = Inr (map JStr names)"
    using assms(3) by (rule comprehension_map)
  have "JStr (metric cfg) \<notin> set (map JStr names)"
    using assms(4) by auto
  then have "resolve_metric p =
     (Inl (UsageError (''Unknown metric '' @ metric cfg @ '' for specified resource. '' @
                  ''Supported metrics are: '' @ join_strs names)), [])"
    using ids assms(2) o
    by (simp add: resolve_metric_def bind_io_def bind_f_def lift_def stop_def join_names
        del: set_map)
  then show ?thesis
    using assms(1) by (simp add: run_def activate_def lookup_metric_def bind_io_def)
qed

text \<open>Sample run of C7: a metric the catalog of two does not have.\<close>

theorem disk_metric_is_unknown:
  "run unknown_metric_config (sample_env JNull) =
     (UsageError
        ''Unknown metric Disk Read Bytes for specified resource. Supported metrics are: Percentage CPU, Transactions'',
      [Authenticate, Send (definitions_request sample_plugin)])"
proof -
  let ?p = "sample_plugin\<lparr>opts := unknown_metric_config, metric_properties := JNull\<rparr>"
  have h1: "connect unknown_metric_config (sample_env JNull) =
      (Inr ?p, [Authenticate, Send (definitions_request sample_plugin)])"
    by code_simp
  have h2: "metric_definitions ?p = JArr [cpu_definition, transactions_definition]"
    by code_simp
  have h3: "map metric_id [cpu_definition, transactions_definition] =
      map (\<lambda>n. Inr (JStr n)) [''Percentage CPU'', ''Transactions'']"
    by (simp add: metric_id_def cpu_definition_def transactions_definition_def bind_f_def)
  have h4: "metric unknown_metric_config \<notin> set [''Percentage CPU'', ''Transactions'']"
    by (simp add: unknown_metric_config_def sample_config_def)
  have m: "metric unknown_metric_config = ''Disk Read Bytes''"
    by code_simp
  have j: "join_strs [''Percentage CPU'', ''Transactions''] = ''Percentage CPU, Transactions''"
    by simp
  show ?thesis
    using unknown_metric_lists_catalog [OF h1 h2 h3 h4]
    by (simp add: m j)
qed

end
